theory Spec2Isabelle
  imports Main
begin

section \<open>Data model of \<open>openai_chat.py\<close>\<close>

text \<open>
  The Python exceptions that the modelled code can raise. \<open>ValueError\<close> is the
  "unknown provider" failure, \<open>IndexError\<close> the failure of \<open>list.pop(1)\<close> on a list
  that has no index 1, \<open>KeyError\<close> a missing dictionary key or environment variable,
  \<open>TypeError\<close> and \<open>AttributeError\<close> the use of a value of the wrong shape, and
  \<open>ProviderError\<close> any exception coming out of a vendor SDK call.
\<close>

datatype error =
    ValueError | NotImplementedError | IndexError | KeyError
  | TypeError | AttributeError | ProviderError

text \<open>
  Messages are Python dictionaries. A dictionary is an association list in insertion
  order, its keys pairwise distinct. A message maps \<open>role\<close> to a string and
  \<open>content\<close> either to a string or to a list of content blocks; a content block maps
  \<open>type\<close> and \<open>text\<close> to strings and \<open>image_url\<close> to a dictionary of strings
  (\<open>url\<close>, \<open>detail\<close>).
\<close>

datatype block_value = BStr string | BDict "(string \<times> string) list"

type_synonym block = "(string \<times> block_value) list"

datatype msg_value = VStr string | VList "block list"

type_synonym message = "(string \<times> msg_value) list"

text \<open>
  \<open>len(encoder.encode(s))\<close> of a tiktoken encoder: the number of tokens of a string,
  \<open>None\<close> where \<open>encode\<close> raises (tiktoken refuses text that holds a special token).
\<close>

type_synonym encoder = "string \<Rightarrow> nat option"

datatype client = OpenAIClient string | AnthropicClient string | GenaiModule string

text \<open>The requests that reach a vendor SDK, and what comes back.\<close>

datatype request =
    ChatCompletionsCreate string "message list"
  | MessagesCreate string nat "message list"
  | GenerateContent string string

record reply =
  reply_role :: string
  reply_text :: string

text \<open>What a call does that is visible from outside: console output, SDK calls, backup writes.\<close>

datatype event =
    Print string
  | PrintNumber string int
  | Call request
  | SaveBackup string "message list"

text \<open>The instance attributes of \<open>LLMManager\<close>.\<close>

record llm_manager =
  provider :: string
  model :: string
  logging :: bool
  tiktoken_encoder :: "encoder option"
  chat_history :: "message list"
  chat_history_backup :: "string option"
  client :: "client option"

text \<open>
  Everything the module reads from outside itself: which packages can be imported, the
  process environment, the backup files on disk, tiktoken's table of encodings, Python's
  \<open>str\<close> on a message and on a content list, the image files, and the vendors' answers.
\<close>

record environment =
  importable :: "string \<Rightarrow> bool"
  environ :: "string \<Rightarrow> string option"
  backup_file :: "string \<Rightarrow> message list option"
  encoding_for_model :: "string \<Rightarrow> encoder option"
  str_message :: "message \<Rightarrow> string"
  str_content :: "block list \<Rightarrow> string"
  b64_image_file :: "string \<Rightarrow> string option"
  provider_call :: "request \<Rightarrow> error + reply"

text \<open>Python truthiness of an optional string argument: \<open>None\<close> and \<open>""\<close> are falsy.\<close>

definition truthy :: "string option \<Rightarrow> bool" where
  "truthy p = (case p of None \<Rightarrow> False | Some s \<Rightarrow> s \<noteq> [])"

section \<open>Provider selection\<close>

definition default_model_for_provider :: "string \<Rightarrow> error + string" where
  "default_model_for_provider p =
     (if p = ''openai'' then Inr ''gpt-4o''
      else if p = ''claude'' then Inr ''claude-3-opus-20240229''
      else if p = ''gemini'' then Inr ''gemini-1.5-pro''
      else Inl ValueError)"

text \<open>
  \<open>_init_client\<close>: a failing import is caught and leaves \<open>client = None\<close>; a missing
  environment variable raises \<open>KeyError\<close>, which is not caught; an unknown provider
  raises \<open>ValueError\<close>. The outcome is paired with the updated object and the output.
\<close>

definition make_client ::
  "environment \<Rightarrow> string \<Rightarrow> string \<Rightarrow> string \<Rightarrow> (string \<Rightarrow> client) \<Rightarrow> llm_manager
     \<Rightarrow> (error + unit) \<times> llm_manager \<times> event list" where
  "make_client env package var msg mk s =
     (if \<not> importable env package then (Inr (), s\<lparr>client := None\<rparr>, [Print msg])
      else (case environ env var of
              None \<Rightarrow> (Inl KeyError, s, [])
            | Some k \<Rightarrow> (Inr (), s\<lparr>client := Some (mk k)\<rparr>, [])))"

definition init_client ::
  "environment \<Rightarrow> llm_manager \<Rightarrow> (error + unit) \<times> llm_manager \<times> event list" where
  "init_client env s =
     (if provider s = ''openai'' then
        make_client env ''openai'' ''OPENAI_API_KEY''
          ''[red]ERROR: OpenAI client not available. Please install openai package.''
          OpenAIClient s
      else if provider s = ''claude'' then
        make_client env ''anthropic'' ''ANTHROPIC_API_KEY''
          ''[red]ERROR: Claude client not available. Please install anthropic package.''
          AnthropicClient s
      else if provider s = ''gemini'' then
        make_client env ''google.generativeai'' ''GOOGLE_API_KEY''
          ''[red]ERROR: Gemini client not available. Please install google-generativeai package.''
          GenaiModule s
      else (Inl ValueError, s, []))"

text \<open>
  \<open>model or self._default_model_for_provider(provider)\<close>: the default is looked up
  (and can raise) only when the model argument is \<open>None\<close> or empty.
\<close>

definition model_or_default :: "string option \<Rightarrow> string \<Rightarrow> error + string" where
  "model_or_default m p =
     (case m of
        None \<Rightarrow> default_model_for_provider p
      | Some md \<Rightarrow> if md = [] then default_model_for_provider p else Inr md)"

text \<open>
  \<open>set_provider(provider, model=None)\<close>: the two attributes are assigned in the order of
  the source, so an exception leaves the assignments made before it in place.
\<close>

definition set_provider ::
  "environment \<Rightarrow> llm_manager \<Rightarrow> string \<Rightarrow> string option
     \<Rightarrow> (error + unit) \<times> llm_manager \<times> event list" where
  "set_provider env s p m =
     (let s1 = s\<lparr>provider := p\<rparr> in
      case model_or_default m p of
        Inl e \<Rightarrow> (Inl e, s1, [])
      | Inr md \<Rightarrow> init_client env (s1\<lparr>model := md\<rparr>))"

text \<open>
  \<open>__init__(system_prompt, chat_history_backup, provider, model)\<close>. An exception in the
  constructor leaves no object behind. The history is the content of the backup file
  when a path is given and the file exists, else the system prompt alone when one is
  given (an empty dictionary is falsy), else empty.
\<close>

definition new_manager ::
  "environment \<Rightarrow> message option \<Rightarrow> string option \<Rightarrow> string \<Rightarrow> string option
     \<Rightarrow> error + llm_manager \<times> event list" where
  "new_manager env system_prompt backup p m =
     (case model_or_default m p of
        Inl e \<Rightarrow> Inl e
      | Inr md \<Rightarrow>
          (case init_client env
                  \<lparr>provider = p, model = md, logging = True, tiktoken_encoder = None,
                   chat_history = [], chat_history_backup = backup, client = None\<rparr> of
             (Inl e, _, _) \<Rightarrow> Inl e
           | (Inr _, s, evs) \<Rightarrow>
               (case (if truthy backup then Option.bind backup (backup_file env) else None) of
                  Some h \<Rightarrow> Inr (s\<lparr>chat_history := h\<rparr>, evs)
                | None \<Rightarrow>
                    (case system_prompt of
                       None \<Rightarrow> Inr (s, evs)
                     | Some sp \<Rightarrow>
                         if sp = [] then Inr (s, evs)
                         else Inr (s\<lparr>chat_history := chat_history s @ [sp]\<rparr>, evs)))))"

section \<open>Token estimation\<close>

text \<open>
  \<open>encoder.encode(value)\<close> on the value of a block key: a dictionary is not text and
  makes tiktoken raise.
\<close>

fun encode_value :: "encoder \<Rightarrow> block_value \<Rightarrow> nat option" where
  "encode_value enc (BStr t) = enc t"
| "encode_value enc (BDict d) = None"

text \<open>
  The four nested \<open>for\<close> statements of \<open>num_tokens_from_messages\<close>, innermost first. Each takes the
  running \<open>num_tokens\<close> and returns it updated, or \<open>None\<close> when an exception leaves the
  \<open>try\<close> block.
\<close>

fun count_block_items :: "encoder \<Rightarrow> block \<Rightarrow> int \<Rightarrow> int option" where
  "count_block_items enc [] n = Some n"
| "count_block_items enc ((content_key, content_value) # rest) n =
     (if content_key = ''type'' then
        (case encode_value enc content_value of
           None \<Rightarrow> None
         | Some t \<Rightarrow> count_block_items enc rest (n + int t))
      else if content_key = ''text'' then
        (case encode_value enc content_value of
           None \<Rightarrow> None
         | Some t \<Rightarrow> count_block_items enc rest (n + int t))
      else if content_key = ''image_url'' then count_block_items enc rest (n + 1105)
      else count_block_items enc rest n)"

fun count_blocks :: "encoder \<Rightarrow> block list \<Rightarrow> int \<Rightarrow> int option" where
  "count_blocks enc [] n = Some n"
| "count_blocks enc (message_data # rest) n =
     (case count_block_items enc message_data n of
        None \<Rightarrow> None
      | Some n' \<Rightarrow> count_blocks enc rest n')"

fun count_message_items :: "encoder \<Rightarrow> message \<Rightarrow> int \<Rightarrow> int option" where
  "count_message_items enc [] n = Some n"
| "count_message_items enc ((key, val) # rest) n =
     (if key = ''role'' then
        (case val of
           VStr r \<Rightarrow>
             (case enc r of
                None \<Rightarrow> None
              | Some t \<Rightarrow> count_message_items enc rest (n + int t))
         | VList _ \<Rightarrow> None)
      else if key = ''content'' then
        (case val of
           VStr c \<Rightarrow>
             (case enc c of
                None \<Rightarrow> None
              | Some t \<Rightarrow> count_message_items enc rest (n + int t))
         | VList blocks \<Rightarrow>
             (case count_blocks enc blocks n of
                None \<Rightarrow> None
              | Some n' \<Rightarrow> count_message_items enc rest n'))
      else count_message_items enc rest n)"

fun count_messages :: "encoder \<Rightarrow> message list \<Rightarrow> int \<Rightarrow> int option" where
  "count_messages enc [] n = Some n"
| "count_messages enc (msg # rest) n =
     (case count_message_items enc msg (n + 4) of
        None \<Rightarrow> None
      | Some n' \<Rightarrow> count_messages enc rest n')"

text \<open>
  \<open>num_tokens_from_messages(messages, model=None)\<close>. For the provider \<open>openai\<close> the
  encoder is fetched once and kept in \<open>tiktoken_encoder\<close>; every exception inside the
  \<open>try\<close> block becomes \<open>NotImplementedError\<close>. For the other providers the estimate is
  a quarter of the length of \<open>str(m)\<close>, rounded down, summed over the messages.
\<close>

definition num_tokens_from_messages ::
  "environment \<Rightarrow> llm_manager \<Rightarrow> message list \<Rightarrow> string option
     \<Rightarrow> (error + int) \<times> llm_manager" where
  "num_tokens_from_messages env s messages model_arg =
     (let md = (case model_arg of
                  None \<Rightarrow> model s
                | Some a \<Rightarrow> if a = [] then model s else a)
      in if provider s = ''openai'' then
           (case (case tiktoken_encoder s of
                    None \<Rightarrow> encoding_for_model env md
                  | Some e \<Rightarrow> Some e) of
              None \<Rightarrow> (Inl NotImplementedError, s)
            | Some e \<Rightarrow>
                (case count_messages e messages 0 of
                   None \<Rightarrow> (Inl NotImplementedError, s\<lparr>tiktoken_encoder := Some e\<rparr>)
                 | Some n \<Rightarrow> (Inr (n + 2), s\<lparr>tiktoken_encoder := Some e\<rparr>)))
         else (Inr (\<Sum>m\<leftarrow>messages. int (length (str_message env m) div 4)), s))"

section \<open>Single-shot chat\<close>

definition newline :: string where
  "newline = [CHR 0x0A]"

text \<open>
  One SDK call: \<open>fits\<close> tells whether the client object has the attribute the call goes
  through (\<open>chat.completions\<close>, \<open>messages\<close>, \<open>GenerativeModel\<close>).
\<close>

fun is_openai :: "client \<Rightarrow> bool" where
  "is_openai (OpenAIClient _) = True"
| "is_openai _ = False"

fun is_anthropic :: "client \<Rightarrow> bool" where
  "is_anthropic (AnthropicClient _) = True"
| "is_anthropic _ = False"

fun is_genai :: "client \<Rightarrow> bool" where
  "is_genai (GenaiModule _) = True"
| "is_genai _ = False"

definition sdk_call :: "environment \<Rightarrow> bool \<Rightarrow> request \<Rightarrow> (error + reply) \<times> event list" where
  "sdk_call env fits req =
     (if fits then (provider_call env req, [Call req]) else (Inl AttributeError, []))"

definition user_text_message :: "string \<Rightarrow> message" where
  "user_text_message p = [(''role'', VStr ''user''), (''content'', VStr p)]"

text \<open>What \<open>chat\<close> does once it holds the answer: print it when logging, return it.\<close>

definition answered ::
  "llm_manager \<Rightarrow> event list \<Rightarrow> (error + reply) \<times> event list
     \<Rightarrow> (error + string option) \<times> llm_manager \<times> event list" where
  "answered s evs0 r =
     (case r of
        (Inl e, evs) \<Rightarrow> (Inl e, s, evs0 @ evs)
      | (Inr a, evs) \<Rightarrow>
          (Inr (Some (reply_text a)), s,
           evs0 @ evs @ (if logging s then [Print (''[green]'' @ newline @ reply_text a @ newline)] else [])))"

text \<open>\<open>chat(prompt="")\<close>. A return without a value is \<open>Inr None\<close>.\<close>

definition chat ::
  "environment \<Rightarrow> llm_manager \<Rightarrow> string option
     \<Rightarrow> (error + string option) \<times> llm_manager \<times> event list" where
  "chat env s prompt =
     (case prompt of
        None \<Rightarrow> (Inr None, s, [Print ''Didn't receive input!''])
      | Some p \<Rightarrow>
          if p = [] then (Inr None, s, [Print ''Didn't receive input!''])
          else if provider s = ''openai'' then
            (case client s of
               None \<Rightarrow> (Inr None, s, [Print ''[red]ERROR: OpenAI client not initialized.''])
             | Some c \<Rightarrow>
                 (case num_tokens_from_messages env s [user_text_message p] None of
                    (Inl e, s1) \<Rightarrow> (Inl e, s1, [])
                  | (Inr n, s1) \<Rightarrow>
                      if n > 128000 then
                        (Inr None, s1,
                         [Print ''The length of this chat question is too large for the GPT model''])
                      else
                        answered s1 [Print (''[yellow]'' @ newline @ ''Asking OpenAI a question...'')]
                          (sdk_call env (is_openai c)
                             (ChatCompletionsCreate (model s1) [user_text_message p]))))
          else if provider s = ''claude'' then
            (case client s of
               None \<Rightarrow> (Inr None, s, [Print ''[red]ERROR: Claude client not initialized.''])
             | Some c \<Rightarrow>
                 answered s [Print (''[yellow]'' @ newline @ ''Asking Claude a question...'')]
                   (sdk_call env (is_anthropic c)
                      (MessagesCreate (model s) 4096 [user_text_message p])))
          else if provider s = ''gemini'' then
            (case client s of
               None \<Rightarrow> (Inr None, s, [Print ''[red]ERROR: Gemini client not initialized.''])
             | Some c \<Rightarrow>
                 answered s [Print (''[yellow]'' @ newline @ ''Asking Gemini a question...'')]
                   (sdk_call env (is_genai c) (GenerateContent (model s) p)))
          else (Inl ValueError, s, []))"

section \<open>Request shapes for the history\<close>

text \<open>Python's \<open>sep.join(parts)\<close>.\<close>

fun join :: "string \<Rightarrow> string list \<Rightarrow> string" where
  "join sep [] = []"
| "join sep [x] = x"
| "join sep (x # y # ys) = x @ sep @ join sep (y # ys)"

text \<open>
  \<open>'\n'.join(values)\<close> on values taken out of blocks: \<open>TypeError\<close> when one of them is not
  a string.
\<close>

fun as_strings :: "block_value list \<Rightarrow> string list option" where
  "as_strings [] = Some []"
| "as_strings (BStr t # vs) = map_option ((#) t) (as_strings vs)"
| "as_strings (BDict d # vs) = None"

definition join_values :: "block_value list \<Rightarrow> error + string" where
  "join_values vs =
     (case as_strings vs of None \<Rightarrow> Inl TypeError | Some ts \<Rightarrow> Inr (join newline ts))"

text \<open>\<open>[c['text'] for c in content if 'text' in c]\<close>\<close>

fun text_values :: "block list \<Rightarrow> block_value list" where
  "text_values [] = []"
| "text_values (c # cs) =
     (case map_of c ''text'' of
        None \<Rightarrow> text_values cs
      | Some v \<Rightarrow> v # text_values cs)"

text \<open>
  \<open>_claude_history_format\<close>: \<open>m['content']\<close> and \<open>m['role']\<close> raise \<open>KeyError\<close> on a
  message without the key.
\<close>

fun claude_history_format :: "message list \<Rightarrow> error + message list" where
  "claude_history_format [] = Inr []"
| "claude_history_format (m # ms) =
     (case map_of m ''content'' of
        None \<Rightarrow> Inl KeyError
      | Some content \<Rightarrow>
          (case (case content of
                   VList blocks \<Rightarrow> join_values (text_values blocks)
                 | VStr t \<Rightarrow> Inr t) of
             Inl e \<Rightarrow> Inl e
           | Inr txt \<Rightarrow>
               (case map_of m ''role'' of
                  None \<Rightarrow> Inl KeyError
                | Some r \<Rightarrow>
                    (case claude_history_format ms of
                       Inl e \<Rightarrow> Inl e
                     | Inr rest \<Rightarrow> Inr ([(''role'', r), (''content'', VStr txt)] # rest)))))"

text \<open>
  \<open>get_gemini_text(m)\<close>: the \<open>text\<close> of the first block when the content is a non-empty
  list whose first block has one, else \<open>str(m['content'])\<close>.
\<close>

definition get_gemini_text :: "environment \<Rightarrow> message \<Rightarrow> error + block_value" where
  "get_gemini_text env m =
     (case map_of m ''content'' of
        None \<Rightarrow> Inl KeyError
      | Some (VStr t) \<Rightarrow> Inr (BStr t)
      | Some (VList []) \<Rightarrow> Inr (BStr (str_content env []))
      | Some (VList (b # bs)) \<Rightarrow>
          (case map_of b ''text'' of
             Some v \<Rightarrow> Inr v
           | None \<Rightarrow> Inr (BStr (str_content env (b # bs)))))"

text \<open>\<open>[get_gemini_text(m) for m in self.chat_history if m['role'] == 'user']\<close>\<close>

fun gemini_texts :: "environment \<Rightarrow> message list \<Rightarrow> error + block_value list" where
  "gemini_texts env [] = Inr []"
| "gemini_texts env (m # ms) =
     (case map_of m ''role'' of
        None \<Rightarrow> Inl KeyError
      | Some r \<Rightarrow>
          if r = VStr ''user'' then
            (case get_gemini_text env m of
               Inl e \<Rightarrow> Inl e
             | Inr v \<Rightarrow>
                 (case gemini_texts env ms of
                    Inl e \<Rightarrow> Inl e
                  | Inr vs \<Rightarrow> Inr (v # vs)))
          else gemini_texts env ms)"

definition gemini_history_text :: "environment \<Rightarrow> message list \<Rightarrow> error + string" where
  "gemini_history_text env h =
     (case gemini_texts env h of Inl e \<Rightarrow> Inl e | Inr vs \<Rightarrow> join_values vs)"

section \<open>Chat with history\<close>

text \<open>
  The user turn that \<open>chat_with_history\<close> appends: a text block, and an image block when
  an image path is given. \<open>None\<close> is the early \<open>return None\<close> taken when the image file
  cannot be read.
\<close>

definition image_block :: "string \<Rightarrow> block" where
  "image_block url =
     [(''type'', BStr ''image_url''),
      (''image_url'', BDict [(''url'', url), (''detail'', ''high'')])]"

definition new_chat_message ::
  "environment \<Rightarrow> string \<Rightarrow> string \<Rightarrow> bool \<Rightarrow> message option" where
  "new_chat_message env p image_path local_image =
     (let text_block = [(''type'', BStr ''text''), (''text'', BStr p)] in
      if image_path = [] then Some [(''role'', VStr ''user''), (''content'', VList [text_block])]
      else
        (case (if local_image
               then map_option ((@) ''data:image/jpeg;base64,'') (b64_image_file env image_path)
               else Some image_path) of
           None \<Rightarrow> None
         | Some url \<Rightarrow>
             Some [(''role'', VStr ''user''),
                   (''content'', VList [text_block, image_block url])]))"

text \<open>
  The eviction loop
  \<^verbatim>\<open>while self.num_tokens_from_messages(self.chat_history) > 128000: self.chat_history.pop(1)\<close>
  with the limit as a parameter. \<open>pop(1)\<close> raises \<open>IndexError\<close> on a list shorter than
  two; otherwise it removes the element at index 1. When logging, the new length is
  computed again for the message that is printed.
\<close>

function truncate_history ::
  "environment \<Rightarrow> int \<Rightarrow> llm_manager \<Rightarrow> (error + unit) \<times> llm_manager \<times> event list" where
  "truncate_history env limit s =
     (case num_tokens_from_messages env s (chat_history s) None of
        (Inl e, s1) \<Rightarrow> (Inl e, s1, [])
      | (Inr n, s1) \<Rightarrow>
          if n > limit then
            (case chat_history s1 of
               m0 # m1 # rest \<Rightarrow>
                 (let s2 = s1\<lparr>chat_history := m0 # rest\<rparr> in
                  if logging s2 then
                    (case num_tokens_from_messages env s2 (chat_history s2) None of
                       (Inl e, s3) \<Rightarrow> (Inl e, s3, [])
                     | (Inr k, s3) \<Rightarrow>
                         (case truncate_history env limit s3 of
                            (r, s4, evs) \<Rightarrow>
                              (r, s4,
                               PrintNumber ''Popped a message! New token length is: '' k # evs)))
                  else truncate_history env limit s2)
             | _ \<Rightarrow> (Inl IndexError, s1, []))
          else (Inr (), s1, []))"
  by pat_completeness auto

termination truncate_history
  apply (relation "measure (\<lambda>(env, limit, s). length (chat_history s))")
    apply simp
   apply (auto simp: num_tokens_from_messages_def Let_def split: if_splits option.splits)
  done

declare truncate_history.simps [simp del]

text \<open>
  The dispatch over the whole history, by provider. The attribute of the client is looked
  up before the arguments of the call are built. The Claude and Gemini branches fix the
  role of the reply to \<open>assistant\<close>. \<open>Inr None\<close> is the \<open>return None\<close> of a missing
  client.
\<close>

definition as_assistant :: "(error + reply) \<times> event list \<Rightarrow> (error + reply option) \<times> event list" where
  "as_assistant r =
     (case r of
        (Inl e, evs) \<Rightarrow> (Inl e, evs)
      | (Inr a, evs) \<Rightarrow> (Inr (Some (a\<lparr>reply_role := ''assistant''\<rparr>)), evs))"

definition dispatch_history ::
  "environment \<Rightarrow> llm_manager \<Rightarrow> (error + reply option) \<times> event list" where
  "dispatch_history env s =
     (if provider s = ''openai'' then
        (case client s of
           None \<Rightarrow> (Inr None, [Print ''[red]ERROR: OpenAI client not initialized.''])
         | Some c \<Rightarrow>
             (case sdk_call env (is_openai c)
                     (ChatCompletionsCreate (model s) (chat_history s)) of
                (Inl e, evs) \<Rightarrow> (Inl e, evs)
              | (Inr a, evs) \<Rightarrow> (Inr (Some a), evs)))
      else if provider s = ''claude'' then
        (case client s of
           None \<Rightarrow> (Inr None, [Print ''[red]ERROR: Claude client not initialized.''])
         | Some c \<Rightarrow>
             if \<not> is_anthropic c then (Inl AttributeError, [])
             else
               (case claude_history_format (chat_history s) of
                  Inl e \<Rightarrow> (Inl e, [])
                | Inr msgs \<Rightarrow>
                    as_assistant (sdk_call env True (MessagesCreate (model s) 4096 msgs))))
      else if provider s = ''gemini'' then
        (case client s of
           None \<Rightarrow> (Inr None, [Print ''[red]ERROR: Gemini client not initialized.''])
         | Some c \<Rightarrow>
             if \<not> is_genai c then (Inl AttributeError, [])
             else
               (case gemini_history_text env (chat_history s) of
                  Inl e \<Rightarrow> (Inl e, [])
                | Inr history_text \<Rightarrow>
                    as_assistant (sdk_call env True (GenerateContent (model s) history_text))))
      else (Inl ValueError, []))"

text \<open>\<open>save_chat_to_backup\<close>: writes the history when a backup path is set.\<close>

definition save_chat_to_backup :: "llm_manager \<Rightarrow> event list" where
  "save_chat_to_backup s =
     (case chat_history_backup s of
        None \<Rightarrow> []
      | Some path \<Rightarrow> if path = [] then [] else [SaveBackup path (chat_history s)])"

text \<open>
  \<open>chat_with_history(prompt="", image_path="", local_image=True)\<close>, in the order of the
  source: append the user turn when there is a prompt, print the token length when
  logging, evict, dispatch, append the reply, save, print, return the reply's text.
\<close>

definition append_prompt ::
  "environment \<Rightarrow> llm_manager \<Rightarrow> string option \<Rightarrow> string \<Rightarrow> bool \<Rightarrow> llm_manager option" where
  "append_prompt env s prompt image_path local_image =
     (case prompt of
        None \<Rightarrow> Some s
      | Some p \<Rightarrow>
          if p = [] then Some s
          else map_option (\<lambda>m. s\<lparr>chat_history := chat_history s @ [m]\<rparr>)
                 (new_chat_message env p image_path local_image))"

definition print_token_length ::
  "environment \<Rightarrow> llm_manager \<Rightarrow> (error + unit) \<times> llm_manager \<times> event list" where
  "print_token_length env s =
     (if logging s then
        (case num_tokens_from_messages env s (chat_history s) None of
           (Inl e, s1) \<Rightarrow> (Inl e, s1, [])
         | (Inr n, s1) \<Rightarrow>
             (Inr (), s1, [PrintNumber ''[coral]Chat History has a current token length of '' n]))
      else (Inr (), s, []))"

definition finish_exchange ::
  "llm_manager \<Rightarrow> event list \<Rightarrow> (error + reply option) \<times> event list
     \<Rightarrow> (error + string option) \<times> llm_manager \<times> event list" where
  "finish_exchange s evs0 r =
     (case r of
        (Inl e, evs) \<Rightarrow> (Inl e, s, evs0 @ evs)
      | (Inr None, evs) \<Rightarrow> (Inr None, s, evs0 @ evs)
      | (Inr (Some a), evs) \<Rightarrow>
          (let s' = s\<lparr>chat_history :=
                        chat_history s
                          @ [[(''role'', VStr (reply_role a)), (''content'', VStr (reply_text a))]]\<rparr>
           in (Inr (Some (reply_text a)), s',
               evs0 @ evs @ save_chat_to_backup s'
                 @ (if logging s' then [Print (''[green]'' @ newline @ reply_text a @ newline)]
                    else []))))"

definition chat_with_history ::
  "environment \<Rightarrow> llm_manager \<Rightarrow> string option \<Rightarrow> string \<Rightarrow> bool
     \<Rightarrow> (error + string option) \<times> llm_manager \<times> event list" where
  "chat_with_history env s prompt image_path local_image =
     (case append_prompt env s prompt image_path local_image of
        None \<Rightarrow> (Inr None, s, [Print ''[red]ERROR: COULD NOT BASE64 ENCODE THE IMAGE. PANIC!!''])
      | Some s0 \<Rightarrow>
          (case print_token_length env s0 of
             (Inl e, s1, evs1) \<Rightarrow> (Inl e, s1, evs1)
           | (Inr _, s1, evs1) \<Rightarrow>
               (case truncate_history env 128000 s1 of
                  (Inl e, s2, evs2) \<Rightarrow> (Inl e, s2, evs1 @ evs2)
                | (Inr _, s2, evs2) \<Rightarrow>
                    finish_exchange s2
                      (evs1 @ evs2
                         @ (if logging s2
                            then [Print (''[yellow]'' @ newline @ ''Asking '' @ provider s2
                                           @ '' a question...'')]
                            else []))
                      (dispatch_history env s2))))"

section \<open>The specification's formulas\<close>

text \<open>
  The token count of a string under an encoder, as a number (0 where \<open>encode\<close> raises;
  the estimator does not return a number then).
\<close>

definition tokens :: "encoder \<Rightarrow> string \<Rightarrow> int" where
  "tokens enc t = (case enc t of None \<Rightarrow> 0 | Some k \<Rightarrow> int k)"

text \<open>
  The estimate as the specification words it: per message 4 tokens, the tokens of the
  role string and the tokens of the text content, 1105 for each image block; 2 more for
  the whole sequence.
\<close>

definition role_tokens :: "encoder \<Rightarrow> message \<Rightarrow> int" where
  "role_tokens enc m = (case map_of m ''role'' of Some (VStr r) \<Rightarrow> tokens enc r | _ \<Rightarrow> 0)"

definition block_text_tokens :: "encoder \<Rightarrow> block \<Rightarrow> int" where
  "block_text_tokens enc b = (case map_of b ''text'' of Some (BStr t) \<Rightarrow> tokens enc t | _ \<Rightarrow> 0)"

definition block_image_tokens :: "block \<Rightarrow> int" where
  "block_image_tokens b = (case map_of b ''image_url'' of None \<Rightarrow> 0 | Some _ \<Rightarrow> 1105)"

definition spec_content_tokens :: "encoder \<Rightarrow> message \<Rightarrow> int" where
  "spec_content_tokens enc m =
     (case map_of m ''content'' of
        None \<Rightarrow> 0
      | Some (VStr c) \<Rightarrow> tokens enc c
      | Some (VList bs) \<Rightarrow> (\<Sum>b\<leftarrow>bs. block_text_tokens enc b + block_image_tokens b))"

definition spec_estimate :: "encoder \<Rightarrow> message list \<Rightarrow> int" where
  "spec_estimate enc ms = (\<Sum>m\<leftarrow>ms. 4 + role_tokens enc m + spec_content_tokens enc m) + 2"

text \<open>What the code counts besides: the tokens of the \<open>type\<close> tag of every block.\<close>

definition block_type_tokens :: "encoder \<Rightarrow> block \<Rightarrow> int" where
  "block_type_tokens enc b = (case map_of b ''type'' of Some (BStr t) \<Rightarrow> tokens enc t | _ \<Rightarrow> 0)"

definition type_tag_tokens :: "encoder \<Rightarrow> message \<Rightarrow> int" where
  "type_tag_tokens enc m =
     (case map_of m ''content'' of
        Some (VList bs) \<Rightarrow> (\<Sum>b\<leftarrow>bs. block_type_tokens enc b)
      | _ \<Rightarrow> 0)"

text \<open>A Python dictionary has each key once.\<close>

fun wf_value :: "msg_value \<Rightarrow> bool" where
  "wf_value (VStr _) = True"
| "wf_value (VList bs) = list_all (\<lambda>b. distinct (map fst b)) bs"

definition wf_message :: "message \<Rightarrow> bool" where
  "wf_message m = (distinct (map fst m) \<and> list_all (\<lambda>kv. wf_value (snd kv)) m)"






text \<open>The texts of the text blocks of a content list, in order.\<close>

fun block_texts :: "block list \<Rightarrow> string list" where
  "block_texts [] = []"
| "block_texts (b # bs) =
     (case map_of b ''text'' of
        Some (BStr t) \<Rightarrow> t # block_texts bs
      | _ \<Rightarrow> block_texts bs)"

fun text_is_string :: "block \<Rightarrow> bool" where
  "text_is_string b = (case map_of b ''text'' of Some (BDict _) \<Rightarrow> False | _ \<Rightarrow> True)"

definition text_block :: "string \<Rightarrow> block" where
  "text_block t = [(''type'', BStr ''text''), (''text'', BStr t)]"

definition known_provider :: "string \<Rightarrow> bool" where
  "known_provider p = (p = ''openai'' \<or> p = ''claude'' \<or> p = ''gemini'')"


definition calls :: "event list \<Rightarrow> request list" where
  "calls evs = concat (map (\<lambda>e. case e of Call r \<Rightarrow> [r] | _ \<Rightarrow> []) evs)"

section \<open>A concrete environment\<close>

text \<open>
  Stand-ins for what lies outside the module, used to run the definitions on concrete
  inputs: an encoder with one token per character, and Python's \<open>str\<close> as it prints
  dictionaries, lists and strings that need no escaping.
\<close>

definition char_encoder :: encoder where
  "char_encoder t = Some (length t)"

definition quoted :: "string \<Rightarrow> string" where
  "quoted t = [CHR 0x27] @ t @ [CHR 0x27]"

definition str_dict :: "('v \<Rightarrow> string) \<Rightarrow> (string \<times> 'v) list \<Rightarrow> string" where
  "str_dict f d = ''{'' @ join '', '' (map (\<lambda>kv. quoted (fst kv) @ '': '' @ f (snd kv)) d) @ ''}''"

fun str_block_value :: "block_value \<Rightarrow> string" where
  "str_block_value (BStr t) = quoted t"
| "str_block_value (BDict d) = str_dict quoted d"

definition str_blocks :: "block list \<Rightarrow> string" where
  "str_blocks bs = ''['' @ join '', '' (map (str_dict str_block_value) bs) @ '']''"

fun str_msg_value :: "msg_value \<Rightarrow> string" where
  "str_msg_value (VStr t) = quoted t"
| "str_msg_value (VList bs) = str_blocks bs"

definition example_env :: environment where
  "example_env =
     \<lparr>importable = (\<lambda>_. True),
      environ = (\<lambda>_. Some ''secret''),
      backup_file = (\<lambda>_. None),
      encoding_for_model = (\<lambda>_. Some char_encoder),
      str_message = str_dict str_msg_value,
      str_content = str_blocks,
      b64_image_file = (\<lambda>_. Some ''AAAA''),
      provider_call = (\<lambda>_. Inr \<lparr>reply_role = ''assistant'', reply_text = ''ok''\<rparr>)\<rparr>"

definition example_manager :: "string \<Rightarrow> string \<Rightarrow> client \<Rightarrow> message list \<Rightarrow> llm_manager" where
  "example_manager p md c h =
     \<lparr>provider = p, model = md, logging = True, tiktoken_encoder = None,
      chat_history = h, chat_history_backup = None, client = Some c\<rparr>"

definition openai_manager :: "message list \<Rightarrow> llm_manager" where
  "openai_manager h = example_manager ''openai'' ''gpt-4o'' (OpenAIClient ''secret'') h"

definition claude_manager :: "message list \<Rightarrow> llm_manager" where
  "claude_manager h =
     example_manager ''claude'' ''claude-3-opus-20240229'' (AnthropicClient ''secret'') h"


definition system_message :: message where
  "system_message = [(''role'', VStr ''system''), (''content'', VStr ''Be brief.'')]"

definition big_prompt :: string where
  "big_prompt = replicate 600000 (CHR ''a'')"

section \<open>Properties\<close>

subsection \<open>The estimator changes nothing but the cached encoder\<close>

lemma num_tokens_history:
  "num_tokens_from_messages env s ms a = (r, s') \<Longrightarrow> chat_history s' = chat_history s"
  by (auto simp: num_tokens_from_messages_def Let_def split: if_splits option.splits)

text \<open>
  C1. Whatever the token limit and the estimator, the eviction loop leaves the first
  message of a non-empty history in place and unchanged: the history it ends with, also
  when it ends with an exception, is the first message followed by the old tail without
  its first \<open>k\<close> elements.
\<close>

theorem truncate_history_keeps_first:
  "chat_history s = m0 # rest \<Longrightarrow>
     \<exists>k. chat_history (fst (snd (truncate_history env limit s))) = m0 # drop k rest"
proof (induction env limit s arbitrary: rest rule: truncate_history.induct)
  case (1 env limit s)
  obtain r s1 where e1: "num_tokens_from_messages env s (chat_history s) None = (r, s1)"
    by (cases "num_tokens_from_messages env s (chat_history s) None")
  have h1: "chat_history s1 = m0 # rest"
    using num_tokens_history [OF e1] "1.prems" by simp
  show ?case
  proof (cases r)
    case (Inl e)
    then have "chat_history (fst (snd (truncate_history env limit s))) = m0 # drop 0 rest"
      using e1 h1 by (simp add: truncate_history.simps [of env limit s])
    then show ?thesis by blast
  next
    case (Inr n)
    show ?thesis
    proof (cases "n > limit")
      case False
      then have "chat_history (fst (snd (truncate_history env limit s))) = m0 # drop 0 rest"
        using e1 h1 Inr by (simp add: truncate_history.simps [of env limit s])
      then show ?thesis by blast
    next
      case over: True
      show ?thesis
      proof (cases rest)
        case Nil
        then have "chat_history (fst (snd (truncate_history env limit s))) = m0 # drop 0 rest"
          using e1 h1 Inr over by (simp add: truncate_history.simps [of env limit s])
        then show ?thesis by blast
      next
        case (Cons m1 rest')
        define s2 where "s2 = s1\<lparr>chat_history := m0 # rest'\<rparr>"
        have h2: "chat_history s2 = m0 # rest'" by (simp add: s2_def)
        show ?thesis
        proof (cases "logging s2")
          case False
          from "1.IH"(2) [OF e1 [symmetric] Inr over _ _ s2_def False h2] h1 Cons
          obtain k where k: "chat_history (fst (snd (truncate_history env limit s2))) = m0 # drop k rest'"
            by auto
          have "truncate_history env limit s = truncate_history env limit s2"
            using e1 h1 Inr over Cons False
            by (simp add: truncate_history.simps [of env limit s] s2_def)
          then have "chat_history (fst (snd (truncate_history env limit s))) = m0 # drop (Suc k) rest"
            using k Cons by simp
          then show ?thesis by blast
        next
          case lg: True
          obtain r3 s3 where e3: "num_tokens_from_messages env s2 (chat_history s2) None = (r3, s3)"
            by (cases "num_tokens_from_messages env s2 (chat_history s2) None")
          have h3: "chat_history s3 = m0 # rest'"
            using num_tokens_history [OF e3] h2 by simp
          show ?thesis
          proof (cases r3)
            case (Inl e)
            then have "chat_history (fst (snd (truncate_history env limit s))) = m0 # drop (Suc 0) rest"
              using e1 h1 Inr over Cons lg e3 h3
              by (simp add: truncate_history.simps [of env limit s] s2_def)
            then show ?thesis by blast
          next
            case (Inr k3)
            from "1.IH"(1) [OF e1 [symmetric] \<open>r = Inr n\<close> over _ _ s2_def lg e3 [symmetric] Inr h3] h1 Cons
            obtain k where k: "chat_history (fst (snd (truncate_history env limit s3))) = m0 # drop k rest'"
              by auto
            have "chat_history (fst (snd (truncate_history env limit s))) = m0 # drop (Suc k) rest"
              using e1 h1 \<open>r = Inr n\<close> over Cons lg e3 Inr k
              by (auto simp add: truncate_history.simps [of env limit s] s2_def split: prod.splits)
            then show ?thesis by blast
          qed
        qed
      qed
    qed
  qed
qed

theorem truncate_history_keeps_first_witness:
  "chat_history (claude_manager
        [system_message, user_text_message ''hello'', user_text_message ''bye''])
     = system_message # [user_text_message ''hello'', user_text_message ''bye''] \<and>
   (\<exists>k. chat_history (fst (snd (truncate_history example_env 20
        (claude_manager [system_message, user_text_message ''hello'', user_text_message ''bye'']))))
      = system_message # drop k [user_text_message ''hello'', user_text_message ''bye''])"
  using truncate_history_keeps_first
    [of "claude_manager [system_message, user_text_message ''hello'', user_text_message ''bye'']"
        system_message "[user_text_message ''hello'', user_text_message ''bye'']" example_env 20]
  by (simp add: claude_manager_def example_manager_def)

text \<open>The loop at work: over the limit of 20, the element at index 1 goes.\<close>

lemma truncate_history_example:
  "truncate_history example_env 20
     (claude_manager [system_message, user_text_message ''hello'', user_text_message ''bye''])
   = (Inr (), claude_manager [system_message, user_text_message ''bye''],
      [PrintNumber ''Popped a message! New token length is: '' 18])"
proof -
  define s where
    "s = claude_manager [system_message, user_text_message ''hello'', user_text_message ''bye'']"
  define s' where "s' = claude_manager [system_message, user_text_message ''bye'']"
  have n: "num_tokens_from_messages example_env s (chat_history s) None = (Inr 27, s)"
    by (simp add: num_tokens_from_messages_def s_def claude_manager_def example_manager_def
          example_env_def system_message_def user_text_message_def str_dict_def quoted_def)
  have n': "num_tokens_from_messages example_env s' (chat_history s') None = (Inr 18, s')"
    by (simp add: num_tokens_from_messages_def s'_def claude_manager_def example_manager_def
          example_env_def system_message_def user_text_message_def str_dict_def quoted_def)
  have e: "s\<lparr>chat_history := [system_message, user_text_message ''bye'']\<rparr> = s'"
    by (simp add: s_def s'_def claude_manager_def example_manager_def)
  have f: "chat_history s = [system_message, user_text_message ''hello'', user_text_message ''bye'']"
    "logging s" "logging s'" "chat_history s' = [system_message, user_text_message ''bye'']"
    by (simp_all add: s_def s'_def claude_manager_def example_manager_def)
  have t': "truncate_history example_env 20 s' = (Inr (), s', [])"
    using n' by (simp add: truncate_history.simps [of example_env 20 s'])
  have "truncate_history example_env 20 s
          = (Inr (), s', [PrintNumber ''Popped a message! New token length is: '' 18])"
    using n n' f t' e by (simp add: truncate_history.simps [of example_env 20 s])
  then show ?thesis by (simp add: s_def s'_def)
qed

subsection \<open>Counting only adds\<close>

lemma num_tokens_again:
  "num_tokens_from_messages env s ms a = (r, s') \<Longrightarrow>
     num_tokens_from_messages env s' ms a = (r, s')"
  by (auto simp: num_tokens_from_messages_def Let_def split: if_splits option.splits)

lemma count_block_items_mono:
  "count_block_items enc b n = Some n' \<Longrightarrow> n \<le> n'"
proof (induction b arbitrary: n)
  case Nil
  then show ?case by simp
next
  case (Cons kv b)
  obtain k v where kv: "kv = (k, v)" by (cases kv)
  from Cons.prems show ?case
    unfolding kv
    by (auto split: if_splits option.splits dest!: Cons.IH)
qed

lemma count_blocks_mono:
  "count_blocks enc bs n = Some n' \<Longrightarrow> n \<le> n'"
  by (induction bs arbitrary: n)
     (auto split: option.splits dest!: count_block_items_mono, fastforce)

lemma count_message_items_mono:
  "count_message_items enc m n = Some n' \<Longrightarrow> n \<le> n'"
proof (induction m arbitrary: n)
  case Nil
  then show ?case by simp
next
  case (Cons kv m)
  obtain k v where kv: "kv = (k, v)" by (cases kv)
  from Cons.prems show ?case
    unfolding kv
    by (auto split: if_splits option.splits msg_value.splits
             dest!: Cons.IH count_blocks_mono)
qed

lemma count_messages_mono:
  "count_messages enc ms n = Some n' \<Longrightarrow> n \<le> n'"
proof (induction ms arbitrary: n)
  case Nil
  then show ?case by simp
next
  case (Cons m ms)
  from Cons.prems obtain k where k: "count_message_items enc m (n + 4) = Some k"
    and r: "count_messages enc ms k = Some n'"
    by (auto split: option.splits)
  from count_message_items_mono [OF k] Cons.IH [OF r] show ?case by simp
qed

lemma count_messages_append:
  "count_messages enc (xs @ ys) n =
     (case count_messages enc xs n of None \<Rightarrow> None | Some k \<Rightarrow> count_messages enc ys k)"
  by (induction xs arbitrary: n) (auto split: option.splits)

subsection \<open>The estimate under append, and a history of one oversize message\<close>

text \<open>
  C4. For the provider \<open>openai\<close>, whenever the estimate of a sequence with one more
  message appended is a number, the estimate of the sequence itself is a number too and
  is not larger; and the estimate is repeatable: asked again in the state the call
  leaves (with the encoder cached), it gives the same number.
\<close>

theorem openai_estimate_monotone:
  assumes "provider s = ''openai''"
    and "num_tokens_from_messages env s (H @ [m]) a = (Inr t, s')"
  shows "\<exists>t0. num_tokens_from_messages env s H a = (Inr t0, s') \<and> t0 \<le> t
            \<and> num_tokens_from_messages env s' (H @ [m]) a = (Inr t, s')
            \<and> num_tokens_from_messages env s' H a = (Inr t0, s')"
proof -
  define md where "md = (case a of None \<Rightarrow> model s | Some x \<Rightarrow> if x = [] then model s else x)"
  define oe where "oe = (case tiktoken_encoder s of None \<Rightarrow> encoding_for_model env md | Some e \<Rightarrow> Some e)"
  have eq: "num_tokens_from_messages env s ms a =
      (case oe of
         None \<Rightarrow> (Inl NotImplementedError, s)
       | Some e \<Rightarrow>
           (case count_messages e ms 0 of
              None \<Rightarrow> (Inl NotImplementedError, s\<lparr>tiktoken_encoder := Some e\<rparr>)
            | Some n \<Rightarrow> (Inr (n + 2), s\<lparr>tiktoken_encoder := Some e\<rparr>)))" for ms
    using assms(1) unfolding num_tokens_from_messages_def Let_def oe_def md_def by simp
  from assms(2) obtain e where e: "oe = Some e"
    by (cases oe) (auto simp: eq)
  from assms(2) e obtain n where n: "count_messages e (H @ [m]) 0 = Some n"
    and t: "t = n + 2" and s': "s' = s\<lparr>tiktoken_encoder := Some e\<rparr>"
    by (auto simp: eq split: option.splits)
  from n obtain k where k: "count_messages e H 0 = Some k"
    and km: "count_messages e [m] k = Some n"
    by (auto simp: count_messages_append split: option.splits)
  have le: "k \<le> n" using count_messages_mono [OF km] .
  have 1: "num_tokens_from_messages env s H a = (Inr (k + 2), s')"
    using e k s' by (simp add: eq)
  have 2: "num_tokens_from_messages env s' (H @ [m]) a = (Inr t, s')"
    using assms(2) by (rule num_tokens_again)
  have 3: "num_tokens_from_messages env s' H a = (Inr (k + 2), s')"
    using 1 by (rule num_tokens_again)
  from 1 2 3 le t show ?thesis by simp
qed


theorem openai_estimate_monotone_witness:
  "provider (openai_manager []) = ''openai'' \<and>
   num_tokens_from_messages example_env
       (openai_manager [])
       ([system_message] @ [user_text_message ''hi'']) None
     = (Inr 31, (openai_manager [])
                  \<lparr>tiktoken_encoder := Some char_encoder\<rparr>) \<and>
   (\<exists>t0. num_tokens_from_messages example_env
             (openai_manager [])
             [system_message] None
           = (Inr t0, (openai_manager [])
                        \<lparr>tiktoken_encoder := Some char_encoder\<rparr>)
         \<and> t0 \<le> 31
         \<and> num_tokens_from_messages example_env
             ((openai_manager [])
                \<lparr>tiktoken_encoder := Some char_encoder\<rparr>)
             ([system_message] @ [user_text_message ''hi'']) None
           = (Inr 31, (openai_manager [])
                        \<lparr>tiktoken_encoder := Some char_encoder\<rparr>)
         \<and> num_tokens_from_messages example_env
             ((openai_manager [])
                \<lparr>tiktoken_encoder := Some char_encoder\<rparr>)
             [system_message] None
           = (Inr t0, (openai_manager [])
                        \<lparr>tiktoken_encoder := Some char_encoder\<rparr>))"
proof -
  have h1: "provider (openai_manager []) = ''openai''"
    by (simp add: openai_manager_def example_manager_def)
  have h2: "num_tokens_from_messages example_env
       (openai_manager [])
       ([system_message] @ [user_text_message ''hi'']) None
     = (Inr 31, (openai_manager [])
                  \<lparr>tiktoken_encoder := Some char_encoder\<rparr>)"
    by (simp add: num_tokens_from_messages_def openai_manager_def example_manager_def example_env_def
          system_message_def user_text_message_def char_encoder_def)
  from h1 h2 openai_estimate_monotone [OF h1 h2] show ?thesis by blast
qed

text \<open>
  C2, as the code has it. When the history that reaches the eviction loop holds exactly
  one message and the estimate of that message exceeds 128000, \<open>chat_with_history\<close> ends
  with the exception that \<open>pop(1)\<close> raises on a list without an index 1 (Python's
  \<open>IndexError\<close>): nothing is sent to a provider and the message stays in the history.
  The loop is a total function, so it never runs forever.
\<close>

theorem single_message_over_budget_raises:
  assumes "append_prompt env s prompt image_path local_image = Some s0"
    and "chat_history s0 = [m]"
    and "num_tokens_from_messages env s0 [m] None = (Inr n, s1)"
    and "n > 128000"
  shows "\<exists>evs. chat_with_history env s prompt image_path local_image = (Inl IndexError, s1, evs)
           \<and> calls evs = [] \<and> chat_history s1 = [m]"
proof -
  have h1: "chat_history s1 = [m]"
    using num_tokens_history [OF assms(3)] assms(2) by simp
  have again: "num_tokens_from_messages env s1 [m] None = (Inr n, s1)"
    using assms(3) by (rule num_tokens_again)
  have t1: "truncate_history env 128000 s1 = (Inl IndexError, s1, [])"
    using again h1 assms(4) by (simp add: truncate_history.simps [of env 128000 s1])
  have t0: "truncate_history env 128000 s0 = (Inl IndexError, s1, [])"
    using assms(2,3,4) h1 by (simp add: truncate_history.simps [of env 128000 s0])
  show ?thesis
  proof (cases "logging s0")
    case True
    then have "chat_with_history env s prompt image_path local_image =
        (Inl IndexError, s1,
         [PrintNumber ''[coral]Chat History has a current token length of '' n])"
      using assms(1,2,3) t1 by (simp add: chat_with_history_def print_token_length_def)
    then show ?thesis using h1 by (simp add: calls_def)
  next
    case False
    then have "chat_with_history env s prompt image_path local_image = (Inl IndexError, s1, [])"
      using assms(1) t0 by (simp add: chat_with_history_def print_token_length_def)
    then show ?thesis using h1 by (simp add: calls_def)
  qed
qed

lemma length_big_prompt: "length big_prompt = 600000"
  by (simp add: big_prompt_def)

lemma big_prompt_not_empty: "big_prompt \<noteq> []"
  using length_big_prompt by fastforce


theorem single_message_over_budget_raises_witness:
  "append_prompt example_env (openai_manager []) (Some big_prompt) [] True
     = Some ((openai_manager [])
          \<lparr>chat_history := [[(''role'', VStr ''user''), (''content'', VList [text_block big_prompt])]]\<rparr>) \<and>
   chat_history ((openai_manager [])
          \<lparr>chat_history := [[(''role'', VStr ''user''), (''content'', VList [text_block big_prompt])]]\<rparr>)
     = [[(''role'', VStr ''user''), (''content'', VList [text_block big_prompt])]] \<and>
   num_tokens_from_messages example_env
       ((openai_manager [])
          \<lparr>chat_history := [[(''role'', VStr ''user''), (''content'', VList [text_block big_prompt])]]\<rparr>)
       [[(''role'', VStr ''user''), (''content'', VList [text_block big_prompt])]] None
     = (Inr 600014,
        (openai_manager [])
          \<lparr>chat_history := [[(''role'', VStr ''user''), (''content'', VList [text_block big_prompt])]],
           tiktoken_encoder := Some char_encoder\<rparr>) \<and>
   (600014 :: int) > 128000 \<and>
   (\<exists>evs. chat_with_history example_env (openai_manager []) (Some big_prompt) [] True
       = (Inl IndexError,
          (openai_manager [])
            \<lparr>chat_history := [[(''role'', VStr ''user''), (''content'', VList [text_block big_prompt])]],
             tiktoken_encoder := Some char_encoder\<rparr>, evs)
       \<and> calls evs = []
       \<and> chat_history ((openai_manager [])
            \<lparr>chat_history := [[(''role'', VStr ''user''), (''content'', VList [text_block big_prompt])]],
             tiktoken_encoder := Some char_encoder\<rparr>)
          = [[(''role'', VStr ''user''), (''content'', VList [text_block big_prompt])]])"
proof -
  let ?m = "[(''role'', VStr ''user''), (''content'', VList [text_block big_prompt])]"
  let ?s0 = "(openai_manager [])\<lparr>chat_history := [?m]\<rparr>"
  let ?s1 = "(openai_manager [])\<lparr>chat_history := [?m], tiktoken_encoder := Some char_encoder\<rparr>"
  have h1: "append_prompt example_env (openai_manager []) (Some big_prompt) [] True = Some ?s0"
    by (simp add: append_prompt_def new_chat_message_def text_block_def big_prompt_not_empty
          openai_manager_def example_manager_def)
  have h2: "chat_history ?s0 = [?m]" by simp
  have h3: "num_tokens_from_messages example_env ?s0 [?m] None = (Inr 600014, ?s1)"
    by (simp add: num_tokens_from_messages_def openai_manager_def example_manager_def
          example_env_def text_block_def char_encoder_def length_big_prompt)
  have h4: "(600014 :: int) > 128000" by simp
  from h1 h2 h3 h4 single_message_over_budget_raises [OF h1 h2 h3 h4] show ?thesis by blast
qed

text \<open>
  C2 as stated fails on an engine that holds a system message and is given an oversize
  prompt: the loop removes the new user turn, no exception is raised, and the request
  goes out with the system message alone.
\<close>

theorem oversize_prompt_evicted_not_reported:
  "chat_with_history example_env (openai_manager [system_message]) (Some big_prompt) [] True
     = (Inr (Some ''ok''),
        (openai_manager [system_message])
          \<lparr>chat_history :=
             [system_message, [(''role'', VStr ''assistant''), (''content'', VStr ''ok'')]],
           tiktoken_encoder := Some char_encoder\<rparr>,
        [PrintNumber ''[coral]Chat History has a current token length of '' 600033,
         PrintNumber ''Popped a message! New token length is: '' 21,
         Print (''[yellow]'' @ newline @ ''Asking openai a question...''),
         Call (ChatCompletionsCreate ''gpt-4o'' [system_message]),
         Print (''[green]'' @ newline @ ''ok'' @ newline)])"
proof -
  define m where "m = [(''role'', VStr ''user''), (''content'', VList [text_block big_prompt])]"
  define s0 where "s0 = (openai_manager [system_message])\<lparr>chat_history := [system_message, m]\<rparr>"
  define s1 where "s1 = s0\<lparr>tiktoken_encoder := Some char_encoder\<rparr>"
  define s2 where "s2 = s1\<lparr>chat_history := [system_message]\<rparr>"
  have a: "append_prompt example_env (openai_manager [system_message]) (Some big_prompt) [] True
             = Some s0"
    by (simp add: append_prompt_def new_chat_message_def text_block_def s0_def m_def
          big_prompt_not_empty openai_manager_def example_manager_def)
  have n0: "num_tokens_from_messages example_env s0 [system_message, m] None = (Inr 600033, s1)"
    by (simp add: num_tokens_from_messages_def s1_def s0_def m_def openai_manager_def
          example_manager_def example_env_def system_message_def text_block_def
          char_encoder_def length_big_prompt)
  have n1: "num_tokens_from_messages example_env s1 [system_message, m] None = (Inr 600033, s1)"
    using n0 by (rule num_tokens_again)
  have n2: "num_tokens_from_messages example_env s2 [system_message] None = (Inr 21, s2)"
    by (simp add: num_tokens_from_messages_def s2_def s1_def s0_def openai_manager_def
          example_manager_def example_env_def system_message_def char_encoder_def)
  have f0: "logging s0" "chat_history s0 = [system_message, m]"
    by (simp_all add: s0_def openai_manager_def example_manager_def)
  have f1: "chat_history s1 = [system_message, m]" "logging s1"
    by (simp_all add: s1_def f0)
  have f2: "logging s2" "chat_history s2 = [system_message]" "provider s2 = ''openai''"
    "chat_history_backup s2 = None" "client s2 = Some (OpenAIClient ''secret'')"
    "model s2 = ''gpt-4o''"
    by (simp_all add: s2_def s1_def s0_def openai_manager_def example_manager_def)
  have p: "print_token_length example_env s0
             = (Inr (), s1,
                [PrintNumber ''[coral]Chat History has a current token length of '' 600033])"
    using n0 f0 by (simp add: print_token_length_def)
  have t2: "truncate_history example_env 128000 s2 = (Inr (), s2, [])"
    using n2 f2 by (simp add: truncate_history.simps [of example_env 128000 s2])
  have t1: "truncate_history example_env 128000 s1
              = (Inr (), s2, [PrintNumber ''Popped a message! New token length is: '' 21])"
    using n1 n2 f1 f2 t2
    by (simp add: truncate_history.simps [of example_env 128000 s1] s2_def [symmetric])
  have d: "dispatch_history example_env s2
             = (Inr (Some \<lparr>reply_role = ''assistant'', reply_text = ''ok''\<rparr>),
                [Call (ChatCompletionsCreate ''gpt-4o'' [system_message])])"
    using f2 by (simp add: dispatch_history_def sdk_call_def example_env_def)
  have "chat_with_history example_env (openai_manager [system_message]) (Some big_prompt) [] True
     = (Inr (Some ''ok''),
        s2\<lparr>chat_history :=
             [system_message, [(''role'', VStr ''assistant''), (''content'', VStr ''ok'')]]\<rparr>,
        [PrintNumber ''[coral]Chat History has a current token length of '' 600033,
         PrintNumber ''Popped a message! New token length is: '' 21,
         Print (''[yellow]'' @ newline @ ''Asking openai a question...''),
         Call (ChatCompletionsCreate ''gpt-4o'' [system_message]),
         Print (''[green]'' @ newline @ ''ok'' @ newline)])"
    using a p t1 d f2
    by (simp add: chat_with_history_def finish_exchange_def save_chat_to_backup_def)
  then show ?thesis by (simp add: s2_def s1_def s0_def)
qed

subsection \<open>The count as a sum over dictionary entries\<close>

lemma encode_value_tokens:
  "encode_value enc v = Some t \<Longrightarrow> \<exists>x. v = BStr x \<and> tokens enc x = int t"
  by (cases v) (auto simp: tokens_def)

lemma count_block_items_sum:
  "distinct (map fst b) \<Longrightarrow> count_block_items enc b n = Some n' \<Longrightarrow>
     n' = n + block_type_tokens enc b + block_text_tokens enc b + block_image_tokens b"
proof (induction b arbitrary: n)
  case Nil
  then show ?case
    by (simp add: block_type_tokens_def block_text_tokens_def block_image_tokens_def)
next
  case (Cons kv b)
  obtain k v where kv: "kv = (k, v)" by (cases kv)
  from Cons.prems(1) have absent: "map_of b k = None" and d: "distinct (map fst b)"
    by (auto simp: kv map_of_eq_None_iff)
  consider (k_type) "k = ''type''" | (k_text) "k = ''text''" | (k_image) "k = ''image_url''"
    | (k_other) "k \<noteq> ''type''" "k \<noteq> ''text''" "k \<noteq> ''image_url''"
    by blast
  then show ?case
  proof cases
    case k_type
    from Cons.prems(2) obtain t where t: "encode_value enc v = Some t"
      and r: "count_block_items enc b (n + int t) = Some n'"
      by (auto simp: kv k_type split: option.splits)
    from encode_value_tokens [OF t] obtain x where x: "v = BStr x" "tokens enc x = int t"
      by blast
    from Cons.IH [OF d r] absent x show ?thesis
      by (simp add: kv k_type block_type_tokens_def block_text_tokens_def block_image_tokens_def)
  next
    case k_text
    from Cons.prems(2) obtain t where t: "encode_value enc v = Some t"
      and r: "count_block_items enc b (n + int t) = Some n'"
      by (auto simp: kv k_text split: option.splits)
    from encode_value_tokens [OF t] obtain x where x: "v = BStr x" "tokens enc x = int t"
      by blast
    from Cons.IH [OF d r] absent x show ?thesis
      by (simp add: kv k_text block_type_tokens_def block_text_tokens_def block_image_tokens_def)
  next
    case k_image
    from Cons.prems(2) have r: "count_block_items enc b (n + 1105) = Some n'"
      by (simp add: kv k_image)
    from Cons.IH [OF d r] absent show ?thesis
      by (simp add: kv k_image block_type_tokens_def block_text_tokens_def block_image_tokens_def)
  next
    case k_other
    from Cons.prems(2) have r: "count_block_items enc b n = Some n'"
      by (simp add: kv k_other)
    from Cons.IH [OF d r] k_other show ?thesis
      by (simp add: kv block_type_tokens_def block_text_tokens_def block_image_tokens_def)
  qed
qed

lemma count_blocks_sum:
  "list_all (\<lambda>b. distinct (map fst b)) bs \<Longrightarrow> count_blocks enc bs n = Some n' \<Longrightarrow>
     n' = n + (\<Sum>b\<leftarrow>bs. block_text_tokens enc b + block_image_tokens b)
            + (\<Sum>b\<leftarrow>bs. block_type_tokens enc b)"
proof (induction bs arbitrary: n)
  case Nil
  then show ?case by simp
next
  case (Cons b bs)
  from Cons.prems(2) obtain k where k: "count_block_items enc b n = Some k"
    and r: "count_blocks enc bs k = Some n'"
    by (auto split: option.splits)
  from Cons.prems(1) have d: "distinct (map fst b)" and ds: "list_all (\<lambda>b. distinct (map fst b)) bs"
    by simp_all
  from count_block_items_sum [OF d k] Cons.IH [OF ds r] show ?case by simp
qed

lemma count_message_items_sum:
  "distinct (map fst m) \<Longrightarrow> list_all (\<lambda>kv. wf_value (snd kv)) m \<Longrightarrow>
   count_message_items enc m n = Some n' \<Longrightarrow>
     n' = n + role_tokens enc m + spec_content_tokens enc m + type_tag_tokens enc m"
proof (induction m arbitrary: n)
  case Nil
  then show ?case
    by (simp add: role_tokens_def spec_content_tokens_def type_tag_tokens_def)
next
  case (Cons kv m)
  obtain k v where kv: "kv = (k, v)" by (cases kv)
  from Cons.prems(1) have absent: "map_of m k = None" and d: "distinct (map fst m)"
    by (auto simp: kv map_of_eq_None_iff)
  from Cons.prems(2) have wv: "wf_value v" and w: "list_all (\<lambda>kv. wf_value (snd kv)) m"
    by (simp_all add: kv)
  consider (role) "k = ''role''" | (content) "k = ''content''"
    | (other) "k \<noteq> ''role''" "k \<noteq> ''content''"
    by blast
  then show ?case
  proof cases
    case role
    from Cons.prems(3) obtain r t where v: "v = VStr r" and t: "enc r = Some t"
      and rest: "count_message_items enc m (n + int t) = Some n'"
      by (auto simp: kv role split: msg_value.splits option.splits)
    from Cons.IH [OF d w rest] absent v t show ?thesis
      by (simp add: kv role role_tokens_def spec_content_tokens_def type_tag_tokens_def tokens_def)
  next
    case content
    show ?thesis
    proof (cases v)
      case (VStr c)
      from Cons.prems(3) obtain t where t: "enc c = Some t"
        and rest: "count_message_items enc m (n + int t) = Some n'"
        by (auto simp: kv content VStr split: option.splits)
      from Cons.IH [OF d w rest] absent t show ?thesis
        by (simp add: kv content VStr role_tokens_def spec_content_tokens_def
              type_tag_tokens_def tokens_def)
    next
      case (VList bs)
      from Cons.prems(3) obtain j where j: "count_blocks enc bs n = Some j"
        and rest: "count_message_items enc m j = Some n'"
        by (auto simp: kv content VList split: option.splits)
      from wv have "list_all (\<lambda>b. distinct (map fst b)) bs" by (simp add: VList)
      from count_blocks_sum [OF this j] Cons.IH [OF d w rest] absent show ?thesis
        by (simp add: kv content VList role_tokens_def spec_content_tokens_def type_tag_tokens_def)
    qed
  next
    case other
    from Cons.prems(3) have rest: "count_message_items enc m n = Some n'"
      by (simp add: kv other)
    from Cons.IH [OF d w rest] other show ?thesis
      by (simp add: kv role_tokens_def spec_content_tokens_def type_tag_tokens_def)
  qed
qed

lemma count_messages_sum:
  "list_all wf_message ms \<Longrightarrow> count_messages enc ms n = Some n' \<Longrightarrow>
     n' = n + (\<Sum>m\<leftarrow>ms. 4 + role_tokens enc m + spec_content_tokens enc m)
            + (\<Sum>m\<leftarrow>ms. type_tag_tokens enc m)"
proof (induction ms arbitrary: n)
  case Nil
  then show ?case by simp
next
  case (Cons m ms)
  from Cons.prems(2) obtain k where k: "count_message_items enc m (n + 4) = Some k"
    and r: "count_messages enc ms k = Some n'"
    by (auto split: option.splits)
  from Cons.prems(1) have ws: "list_all wf_message ms" and wm: "wf_message m"
    by simp_all
  from wm have d: "distinct (map fst m)" and w: "list_all (\<lambda>kv. wf_value (snd kv)) m"
    by (simp_all add: wf_message_def)
  from count_message_items_sum [OF d w k] Cons.IH [OF ws r] show ?case by simp
qed

subsection \<open>The estimate of the OpenAI provider\<close>

text \<open>
  C3, as the code has it. For the provider \<open>openai\<close> and messages that are dictionaries
  (each key once), an estimate that is a number is: for every message 4, the tokens of
  the role string and the tokens of the text content, with 1105 for every block that has
  an \<open>image_url\<close> entry; 2 for the sequence; and, beyond the specification's formula,
  the tokens of the \<open>type\<close> tag of every content block.
\<close>

theorem openai_estimate_formula:
  assumes "provider s = ''openai''"
    and "list_all wf_message ms"
    and "num_tokens_from_messages env s ms a = (Inr t, s')"
  shows "\<exists>enc. tiktoken_encoder s' = Some enc
           \<and> t = spec_estimate enc ms + (\<Sum>m\<leftarrow>ms. type_tag_tokens enc m)"
proof -
  from assms(1,3) obtain enc n where enc: "tiktoken_encoder s' = Some enc"
    and n: "count_messages enc ms 0 = Some n" and t: "t = n + 2"
    unfolding num_tokens_from_messages_def Let_def
    by (auto split: option.splits)
  from count_messages_sum [OF assms(2) n] t
  have "t = spec_estimate enc ms + (\<Sum>m\<leftarrow>ms. type_tag_tokens enc m)"
    by (simp add: spec_estimate_def)
  with enc show ?thesis by blast
qed

theorem openai_estimate_formula_witness:
  "provider (openai_manager []) = ''openai'' \<and>
   list_all wf_message
     [[(''role'', VStr ''user''),
       (''content'', VList [text_block ''hi'', image_block ''http://x/y.jpg''])]] \<and>
   num_tokens_from_messages example_env (openai_manager [])
     [[(''role'', VStr ''user''),
       (''content'', VList [text_block ''hi'', image_block ''http://x/y.jpg''])]] None
     = (Inr 1130, (openai_manager [])\<lparr>tiktoken_encoder := Some char_encoder\<rparr>) \<and>
   (\<exists>enc. tiktoken_encoder ((openai_manager [])\<lparr>tiktoken_encoder := Some char_encoder\<rparr>) = Some enc
      \<and> (1130 :: int) = spec_estimate enc
            [[(''role'', VStr ''user''),
              (''content'', VList [text_block ''hi'', image_block ''http://x/y.jpg''])]]
          + (\<Sum>m\<leftarrow>[[(''role'', VStr ''user''),
                    (''content'', VList [text_block ''hi'', image_block ''http://x/y.jpg''])]].
               type_tag_tokens enc m))"
proof -
  let ?ms = "[[(''role'', VStr ''user''),
       (''content'', VList [text_block ''hi'', image_block ''http://x/y.jpg''])]]"
  have h1: "provider (openai_manager []) = ''openai''"
    by (simp add: openai_manager_def example_manager_def)
  have h2: "list_all wf_message ?ms"
    by (simp add: wf_message_def text_block_def image_block_def)
  have h3: "num_tokens_from_messages example_env (openai_manager []) ?ms None
     = (Inr 1130, (openai_manager [])\<lparr>tiktoken_encoder := Some char_encoder\<rparr>)"
    by (simp add: num_tokens_from_messages_def openai_manager_def example_manager_def
          example_env_def text_block_def image_block_def char_encoder_def)
  from h1 h2 h3 openai_estimate_formula [OF h1 h2 h3] show ?thesis by blast
qed

text \<open>
  C3 as stated fails on the user turn that \<open>chat_with_history\<close> builds for the prompt
  \<open>hi\<close>: with one token per character the code returns 16, the formula of the claim 12;
  the difference is the \<open>type\<close> tag \<open>text\<close> of the block.
\<close>

theorem openai_estimate_not_spec_formula:
  "fst (num_tokens_from_messages example_env (openai_manager [])
          [[(''role'', VStr ''user''), (''content'', VList [text_block ''hi''])]] None) = Inr 16 \<and>
   spec_estimate char_encoder
          [[(''role'', VStr ''user''), (''content'', VList [text_block ''hi''])]] = 12"
  by (simp add: num_tokens_from_messages_def openai_manager_def example_manager_def
        example_env_def text_block_def char_encoder_def spec_estimate_def role_tokens_def
        spec_content_tokens_def block_text_tokens_def block_image_tokens_def tokens_def)

subsection \<open>The Gemini prompt\<close>







subsection \<open>The Claude request shape\<close>

lemma text_values_strings:
  "list_all text_is_string bs \<Longrightarrow> as_strings (text_values bs) = Some (block_texts bs)"
proof (induction bs)
  case Nil
  then show ?case by simp
next
  case (Cons b bs)
  then show ?case
    by (cases "map_of b ''text''") (auto split: block_value.splits)
qed

lemma block_texts_append: "block_texts (xs @ ys) = block_texts xs @ block_texts ys"
  by (induction xs) (auto split: option.splits block_value.splits)

text \<open>
  C6, as the code has it. A message with a role whose content is a list of blocks, the
  \<open>text\<close> entries all strings, is turned into a message with the same role and, as
  content, the texts of the blocks that have one, in order, joined by newlines. An image
  block has no text and adds nothing: the result is the one that the content without the
  image block gives, and it is an ordinary result, not an error.
\<close>

theorem claude_format_flattens_text:
  assumes "map_of m ''role'' = Some r"
    and "map_of m ''content'' = Some (VList bs)"
    and "list_all text_is_string bs"
  shows "claude_history_format [m]
           = Inr [[(''role'', r), (''content'', VStr (join newline (block_texts bs)))]]
         \<and> (\<forall>pre url post. bs = pre @ image_block url # post \<longrightarrow>
               block_texts bs = block_texts (pre @ post))"
proof -
  have "claude_history_format [m]
           = Inr [[(''role'', r), (''content'', VStr (join newline (block_texts bs)))]]"
    using assms by (simp add: join_values_def text_values_strings)
  moreover have "block_texts bs = block_texts (pre @ post)"
    if "bs = pre @ image_block url # post" for pre url post
    using that by (simp add: block_texts_append image_block_def)
  ultimately show ?thesis by blast
qed

theorem claude_format_flattens_text_witness:
  "map_of [(''role'', VStr ''user''),
           (''content'', VList [text_block ''hi'', image_block ''http://x/y.jpg'', text_block ''there''])]
      ''role'' = Some (VStr ''user'') \<and>
   map_of [(''role'', VStr ''user''),
           (''content'', VList [text_block ''hi'', image_block ''http://x/y.jpg'', text_block ''there''])]
      ''content''
     = Some (VList [text_block ''hi'', image_block ''http://x/y.jpg'', text_block ''there'']) \<and>
   list_all text_is_string [text_block ''hi'', image_block ''http://x/y.jpg'', text_block ''there''] \<and>
   claude_history_format
     [[(''role'', VStr ''user''),
       (''content'', VList [text_block ''hi'', image_block ''http://x/y.jpg'', text_block ''there''])]]
     = Inr [[(''role'', VStr ''user''), (''content'', VStr (''hi'' @ [CHR 0x0A] @ ''there''))]] \<and>
   block_texts [text_block ''hi'', image_block ''http://x/y.jpg'', text_block ''there'']
     = block_texts ([text_block ''hi''] @ [text_block ''there''])"
proof -
  define bs where "bs = [text_block ''hi'', image_block ''http://x/y.jpg'', text_block ''there'']"
  define m where "m = [(''role'', VStr ''user''), (''content'', VList bs)]"
  have h1: "map_of m ''role'' = Some (VStr ''user'')" by (simp add: m_def)
  have h2: "map_of m ''content'' = Some (VList bs)" by (simp add: m_def)
  have h3: "list_all text_is_string bs" by (simp add: bs_def text_block_def image_block_def)
  have t: "join newline (block_texts bs) = ''hi'' @ [CHR 0x0A] @ ''there''"
    by (simp add: bs_def text_block_def image_block_def newline_def)
  have split: "bs = [text_block ''hi''] @ image_block ''http://x/y.jpg'' # [text_block ''there'']"
    by (simp add: bs_def)
  note c = claude_format_flattens_text [OF h1 h2 h3]
  from c t have r1: "claude_history_format [m]
          = Inr [[(''role'', VStr ''user''), (''content'', VStr (''hi'' @ [CHR 0x0A] @ ''there''))]]"
    by simp
  from c split have r2: "block_texts bs = block_texts ([text_block ''hi''] @ [text_block ''there''])"
    by blast
  from h1 h2 h3 r1 r2 show ?thesis unfolding m_def bs_def by blast
qed

text \<open>
  C6 as stated fails on a user turn with an image sent to Claude: the request carries
  the text alone, and nothing that is printed or returned mentions the image.
\<close>

theorem claude_image_dropped_silently:
  "chat_with_history example_env (claude_manager []) (Some ''hi'') ''http://x/y.jpg'' False
     = (Inr (Some ''ok''),
        (claude_manager [])
          \<lparr>chat_history :=
             [[(''role'', VStr ''user''),
               (''content'', VList [text_block ''hi'', image_block ''http://x/y.jpg''])],
              [(''role'', VStr ''assistant''), (''content'', VStr ''ok'')]]\<rparr>,
        [PrintNumber ''[coral]Chat History has a current token length of '' 35,
         Print (''[yellow]'' @ newline @ ''Asking claude a question...''),
         Call (MessagesCreate ''claude-3-opus-20240229'' 4096
                 [[(''role'', VStr ''user''), (''content'', VStr ''hi'')]]),
         Print (''[green]'' @ newline @ ''ok'' @ newline)])"
proof -
  define m where "m = [(''role'', VStr ''user''),
             (''content'', VList [text_block ''hi'', image_block ''http://x/y.jpg''])]"
  define s0 where "s0 = (claude_manager [])\<lparr>chat_history := [m]\<rparr>"
  have a: "append_prompt example_env (claude_manager []) (Some ''hi'') ''http://x/y.jpg'' False
             = Some s0"
    by (simp add: append_prompt_def new_chat_message_def text_block_def s0_def m_def
          claude_manager_def example_manager_def)
  have n: "num_tokens_from_messages example_env s0 [m] None = (Inr 35, s0)"
    by (simp add: num_tokens_from_messages_def s0_def m_def claude_manager_def
          example_manager_def example_env_def text_block_def image_block_def str_dict_def
          str_blocks_def quoted_def)
  have lg: "logging s0" and h: "chat_history s0 = [m]" and pr: "provider s0 = ''claude''"
    and bk: "chat_history_backup s0 = None"
    by (simp_all add: s0_def claude_manager_def example_manager_def)
  have p: "print_token_length example_env s0
             = (Inr (), s0,
                [PrintNumber ''[coral]Chat History has a current token length of '' 35])"
    using n lg h by (simp add: print_token_length_def)
  have t: "truncate_history example_env 128000 s0 = (Inr (), s0, [])"
    using n h by (simp add: truncate_history.simps [of example_env 128000 s0])
  have f: "claude_history_format [m] = Inr [[(''role'', VStr ''user''), (''content'', VStr ''hi'')]]"
    by (simp add: m_def join_values_def text_block_def image_block_def)
  have d: "dispatch_history example_env s0
             = (Inr (Some \<lparr>reply_role = ''assistant'', reply_text = ''ok''\<rparr>),
                [Call (MessagesCreate ''claude-3-opus-20240229'' 4096
                         [[(''role'', VStr ''user''), (''content'', VStr ''hi'')]])])"
    using f h by (simp add: dispatch_history_def sdk_call_def as_assistant_def s0_def
          claude_manager_def example_manager_def example_env_def)
  have "chat_with_history example_env (claude_manager []) (Some ''hi'') ''http://x/y.jpg'' False
     = (Inr (Some ''ok''),
        s0\<lparr>chat_history := [m, [(''role'', VStr ''assistant''), (''content'', VStr ''ok'')]]\<rparr>,
        [PrintNumber ''[coral]Chat History has a current token length of '' 35,
         Print (''[yellow]'' @ newline @ ''Asking claude a question...''),
         Call (MessagesCreate ''claude-3-opus-20240229'' 4096
                 [[(''role'', VStr ''user''), (''content'', VStr ''hi'')]]),
         Print (''[green]'' @ newline @ ''ok'' @ newline)])"
    using a p t d lg h pr bk
    by (simp add: chat_with_history_def finish_exchange_def save_chat_to_backup_def)
  then show ?thesis by (simp add: s0_def m_def)
qed

subsection \<open>Single-shot chat\<close>

text \<open>
  C8. Whatever the prompt, \<open>chat\<close> leaves the conversation history as it was. Without a
  prompt (\<open>None\<close> or the empty string) it returns no value and no error, changes
  nothing in the object and makes no provider call.
\<close>

theorem chat_keeps_history:
  "chat_history (fst (snd (chat env s prompt))) = chat_history s
   \<and> (\<not> truthy prompt \<longrightarrow>
        fst (chat env s prompt) = Inr None \<and> fst (snd (chat env s prompt)) = s
        \<and> calls (snd (snd (chat env s prompt))) = [])"
proof -
  have frame: "chat_history (fst (snd (chat env s prompt))) = chat_history s"
  proof (cases prompt)
    case None
    then show ?thesis by (simp add: chat_def)
  next
    case (Some p)
    obtain r s1 where e: "num_tokens_from_messages env s [user_text_message p] None = (r, s1)"
      by (cases "num_tokens_from_messages env s [user_text_message p] None")
    have h: "chat_history s1 = chat_history s" using num_tokens_history [OF e] .
    show ?thesis
      using Some e h
      by (auto simp: chat_def answered_def split: option.splits sum.splits prod.splits)
  qed
  have noop: "fst (chat env s prompt) = Inr None \<and> fst (snd (chat env s prompt)) = s
        \<and> calls (snd (snd (chat env s prompt))) = []" if "\<not> truthy prompt"
    using that by (cases prompt) (auto simp: chat_def truthy_def calls_def)
  from frame noop show ?thesis by blast
qed


theorem chat_keeps_history_witness:
  "chat_history (fst (snd (chat example_env (openai_manager [system_message]) (Some []))))
     = chat_history (openai_manager [system_message]) \<and>
   \<not> truthy (Some []) \<and>
   fst (chat example_env (openai_manager [system_message]) (Some [])) = Inr None \<and>
   fst (snd (chat example_env (openai_manager [system_message]) (Some [])))
     = openai_manager [system_message] \<and>
   calls (snd (snd (chat example_env (openai_manager [system_message]) (Some [])))) = []"
proof -
  have h: "\<not> truthy (Some [])" by (simp add: truthy_def)
  from h chat_keeps_history [of example_env "openai_manager [system_message]" "Some []"]
  show ?thesis by blast
qed

text \<open>
  C7, as the code has it. With the provider \<open>openai\<close> and a client in place, a prompt
  whose single-message estimate exceeds 128000 is turned away before any provider call:
  \<open>chat\<close> prints that the question is too large and returns no value; it raises no
  exception.
\<close>

theorem chat_openai_rejects_oversize:
  assumes "provider s = ''openai''"
    and "client s = Some c"
    and "p \<noteq> []"
    and "num_tokens_from_messages env s [user_text_message p] None = (Inr n, s1)"
    and "n > 128000"
  shows "chat env s (Some p)
           = (Inr None, s1,
              [Print ''The length of this chat question is too large for the GPT model''])"
  using assms by (simp add: chat_def)

theorem chat_openai_rejects_oversize_witness:
  "provider (openai_manager []) = ''openai'' \<and>
   client (openai_manager []) = Some (OpenAIClient ''secret'') \<and>
   big_prompt \<noteq> [] \<and>
   num_tokens_from_messages example_env (openai_manager []) [user_text_message big_prompt] None
     = (Inr 600010, (openai_manager [])\<lparr>tiktoken_encoder := Some char_encoder\<rparr>) \<and>
   (600010 :: int) > 128000 \<and>
   chat example_env (openai_manager []) (Some big_prompt)
     = (Inr None, (openai_manager [])\<lparr>tiktoken_encoder := Some char_encoder\<rparr>,
        [Print ''The length of this chat question is too large for the GPT model''])"
proof -
  have h1: "provider (openai_manager []) = ''openai''"
    and h2: "client (openai_manager []) = Some (OpenAIClient ''secret'')"
    by (simp_all add: openai_manager_def example_manager_def)
  have h4: "num_tokens_from_messages example_env (openai_manager [])
              [user_text_message big_prompt] None
     = (Inr 600010, (openai_manager [])\<lparr>tiktoken_encoder := Some char_encoder\<rparr>)"
    by (simp add: num_tokens_from_messages_def openai_manager_def example_manager_def
          example_env_def user_text_message_def char_encoder_def length_big_prompt)
  have h5: "(600010 :: int) > 128000" by simp
  from h1 h2 big_prompt_not_empty h4 h5
    chat_openai_rejects_oversize [OF h1 h2 big_prompt_not_empty h4 h5]
  show ?thesis by blast
qed

text \<open>
  C7 as stated fails for the provider \<open>claude\<close>: a prompt of 600000 characters, whose
  estimate is 150007, is sent to the provider and answered.
\<close>

theorem chat_claude_sends_oversize:
  "fst (num_tokens_from_messages example_env (claude_manager [])
          [user_text_message big_prompt] None) = Inr 150007 \<and>
   (150007 :: int) > 128000 \<and>
   chat example_env (claude_manager []) (Some big_prompt)
     = (Inr (Some ''ok''), claude_manager [],
        [Print (''[yellow]'' @ newline @ ''Asking Claude a question...''),
         Call (MessagesCreate ''claude-3-opus-20240229'' 4096 [user_text_message big_prompt]),
         Print (''[green]'' @ newline @ ''ok'' @ newline)])"
proof -
  have n: "fst (num_tokens_from_messages example_env (claude_manager [])
          [user_text_message big_prompt] None) = Inr 150007"
    by (simp add: num_tokens_from_messages_def claude_manager_def example_manager_def
          example_env_def user_text_message_def str_dict_def quoted_def length_big_prompt)
  have c: "chat example_env (claude_manager []) (Some big_prompt)
     = (Inr (Some ''ok''), claude_manager [],
        [Print (''[yellow]'' @ newline @ ''Asking Claude a question...''),
         Call (MessagesCreate ''claude-3-opus-20240229'' 4096 [user_text_message big_prompt]),
         Print (''[green]'' @ newline @ ''ok'' @ newline)])"
    by (simp add: chat_def answered_def sdk_call_def big_prompt_not_empty claude_manager_def
          example_manager_def example_env_def)
  from n c show ?thesis by simp
qed

subsection \<open>Switching the provider\<close>






text \<open>
  C10, as the code has it. For a provider name other than \<open>openai\<close>, \<open>claude\<close> and
  \<open>gemini\<close> the constructor raises \<open>ValueError\<close> and no object comes into being, and
  \<open>set_provider\<close> raises \<open>ValueError\<close> too. By then \<open>set_provider\<close> has stored the new
  provider name, and the model when one was given; the client and the history are those
  from before the call.
\<close>

theorem unknown_provider_raises:
  assumes "\<not> known_provider p"
  shows "new_manager env system_prompt backup p m = Inl ValueError
         \<and> (case set_provider env s p m of
               (r, s', evs) \<Rightarrow>
                 r = Inl ValueError
                 \<and> provider s' = p
                 \<and> model s' = (case m of None \<Rightarrow> model s
                                 | Some md \<Rightarrow> if md = [] then model s else md)
                 \<and> client s' = client s
                 \<and> chat_history s' = chat_history s)"
proof -
  from assms have p: "p \<noteq> ''openai''" "p \<noteq> ''claude''" "p \<noteq> ''gemini''"
    by (simp_all add: known_provider_def)
  have d: "default_model_for_provider p = Inl ValueError"
    using p by (simp add: default_model_for_provider_def)
  have i: "init_client env x = (Inl ValueError, x, [])" if "provider x = p" for x
    using p that by (simp add: init_client_def)
  have n: "new_manager env system_prompt backup p m = Inl ValueError"
    using d i by (simp add: new_manager_def model_or_default_def split: option.splits)
  have s: "(case set_provider env s p m of
               (r, s', evs) \<Rightarrow>
                 r = Inl ValueError
                 \<and> provider s' = p
                 \<and> model s' = (case m of None \<Rightarrow> model s
                                 | Some md \<Rightarrow> if md = [] then model s else md)
                 \<and> client s' = client s
                 \<and> chat_history s' = chat_history s)"
    using d i by (simp add: set_provider_def model_or_default_def split: option.splits)
  from n s show ?thesis by blast
qed

theorem unknown_provider_raises_witness:
  "\<not> known_provider ''mistral'' \<and>
   new_manager example_env (Some system_message) None ''mistral'' (Some ''mistral-large'')
     = Inl ValueError \<and>
   (case set_provider example_env (openai_manager [system_message]) ''mistral''
           (Some ''mistral-large'') of
      (r, s', evs) \<Rightarrow>
        r = Inl ValueError
        \<and> provider s' = ''mistral''
        \<and> model s' = (case Some ''mistral-large'' of
                        None \<Rightarrow> model (openai_manager [system_message])
                      | Some md \<Rightarrow> if md = [] then model (openai_manager [system_message]) else md)
        \<and> client s' = client (openai_manager [system_message])
        \<and> chat_history s' = chat_history (openai_manager [system_message]))"
proof -
  have h: "\<not> known_provider ''mistral''" by (simp add: known_provider_def)
  from h unknown_provider_raises [OF h, where env = example_env
      and system_prompt = "Some system_message" and backup = None
      and m = "Some ''mistral-large''" and s = "openai_manager [system_message]"]
  show ?thesis by blast
qed

text \<open>
  C10 as stated fails on a switch from \<open>openai\<close> to an unknown name: the call raises,
  and the object's provider is the unknown name afterwards.
\<close>

theorem failed_switch_changes_provider:
  "provider (openai_manager [system_message]) = ''openai'' \<and>
   set_provider example_env (openai_manager [system_message]) ''mistral'' None
     = (Inl ValueError, (openai_manager [system_message])\<lparr>provider := ''mistral''\<rparr>, [])"
  by (simp add: set_provider_def model_or_default_def default_model_for_provider_def
        openai_manager_def example_manager_def)

end
